theory Spec2Isabelle
  imports Complex_Main
begin

section \<open>JavaScript numbers\<close>

text \<open>
  The program is TypeScript; every numeric value is a JavaScript \<^verbatim>\<open>number\<close>.
  A number is modelled as a real number, or one of the three special values.
  The arithmetic below follows the IEEE rules for the special values and is exact on
  finite operands: rounding to binary64 and the sign of zero are not modelled.
\<close>

datatype jsnum = Fin real | PInf | NInf | NaN

fun isFinite :: "jsnum \<Rightarrow> bool" where
  "isFinite (Fin _) = True"
| "isFinite _ = False"

fun js_neg :: "jsnum \<Rightarrow> jsnum" where
  "js_neg (Fin a) = Fin (- a)"
| "js_neg PInf = NInf"
| "js_neg NInf = PInf"
| "js_neg NaN = NaN"

fun js_add :: "jsnum \<Rightarrow> jsnum \<Rightarrow> jsnum" where
  "js_add (Fin a) (Fin b) = Fin (a + b)"
| "js_add NaN _ = NaN"
| "js_add _ NaN = NaN"
| "js_add PInf NInf = NaN"
| "js_add NInf PInf = NaN"
| "js_add PInf _ = PInf"
| "js_add _ PInf = PInf"
| "js_add NInf _ = NInf"
| "js_add _ NInf = NInf"

definition js_sub :: "jsnum \<Rightarrow> jsnum \<Rightarrow> jsnum" where
  js_sub_def [simp]: "js_sub a b = js_add a (js_neg b)"

text \<open>The sign of a number as \<open>-1\<close>, \<open>0\<close> or \<open>1\<close>; \<open>None\<close> for NaN.\<close>

fun js_sign :: "jsnum \<Rightarrow> real option" where
  "js_sign (Fin a) = Some (sgn a)"
| "js_sign PInf = Some 1"
| "js_sign NInf = Some (- 1)"
| "js_sign NaN = None"

definition signed_inf :: "real \<Rightarrow> jsnum" where
  "signed_inf s = (if s = 0 then NaN else if 0 < s then PInf else NInf)"

fun js_mul :: "jsnum \<Rightarrow> jsnum \<Rightarrow> jsnum" where
  "js_mul (Fin a) (Fin b) = Fin (a * b)"
| "js_mul a b =
     (case (js_sign a, js_sign b) of
        (Some s, Some t) \<Rightarrow> signed_inf (s * t)
      | _ \<Rightarrow> NaN)"

text \<open>
  Division: a finite non-zero number over zero is an infinity, zero over zero is NaN.
  (With signed zeros the infinity may have the other sign; it is an infinity all the same.)
\<close>

fun js_div :: "jsnum \<Rightarrow> jsnum \<Rightarrow> jsnum" where
  "js_div (Fin a) (Fin b) = (if b = 0 then signed_inf a else Fin (a / b))"
| "js_div NaN _ = NaN"
| "js_div _ NaN = NaN"
| "js_div (Fin a) _ = Fin 0"
| "js_div PInf (Fin b) = (if b < 0 then NInf else PInf)"
| "js_div NInf (Fin b) = (if b < 0 then PInf else NInf)"
| "js_div _ _ = NaN"

fun js_sqrt :: "jsnum \<Rightarrow> jsnum" where
  "js_sqrt (Fin a) = (if a < 0 then NaN else Fin (sqrt a))"
| "js_sqrt PInf = PInf"
| "js_sqrt _ = NaN"

fun js_le :: "jsnum \<Rightarrow> jsnum \<Rightarrow> bool" where
  "js_le (Fin a) (Fin b) = (a \<le> b)"
| "js_le NaN _ = False"
| "js_le _ NaN = False"
| "js_le NInf _ = True"
| "js_le _ PInf = True"
| "js_le _ _ = False"

fun js_lt :: "jsnum \<Rightarrow> jsnum \<Rightarrow> bool" where
  "js_lt (Fin a) (Fin b) = (a < b)"
| "js_lt NaN _ = False"
| "js_lt _ NaN = False"
| "js_lt PInf _ = False"
| "js_lt _ NInf = False"
| "js_lt _ _ = True"

text \<open>The operators of the language on numbers, written with the usual symbols.\<close>

instantiation jsnum :: "{plus, minus, times, inverse, ord}"
begin

definition plus_jsnum_def [simp]: "a + b = js_add a b"
definition minus_jsnum_def [simp]: "a - b = js_sub a b"
definition times_jsnum_def [simp]: "a * b = js_mul a b"
definition divide_jsnum_def [simp]: "a div b = js_div a b"
definition inverse_jsnum_def [simp]: "inverse a = js_div (Fin 1) a"
definition less_eq_jsnum_def [simp]: "a \<le> b \<longleftrightarrow> js_le a b"
definition less_jsnum_def [simp]: "a < b \<longleftrightarrow> js_lt a b"

instance ..

end

text \<open>\<^verbatim>\<open>Math.max\<close> and \<^verbatim>\<open>Math.min\<close> of two numbers: NaN if either is NaN.\<close>

definition Math_max :: "jsnum \<Rightarrow> jsnum \<Rightarrow> jsnum" where
  "Math_max a b = (if a = NaN \<or> b = NaN then NaN else if a \<le> b then b else a)"

definition Math_min :: "jsnum \<Rightarrow> jsnum \<Rightarrow> jsnum" where
  "Math_min a b = (if a = NaN \<or> b = NaN then NaN else if a \<le> b then a else b)"

text \<open>A number is falsy when it is zero or NaN; a text is falsy when it is empty.\<close>

definition truthy :: "jsnum \<Rightarrow> bool" where
  "truthy m \<longleftrightarrow> m \<noteq> Fin 0 \<and> m \<noteq> NaN"

section \<open>\<^verbatim>\<open>Number(v)\<close>: conversion of a raw scalar\<close>

text \<open>
  A raw scalar is text or a number. Text is a list of code units; the model covers
  code units below 256. \<open>Number\<close> of a text is the language's StringToNumber:
  white space is trimmed, the empty text is \<open>0\<close>, a decimal literal (optional sign,
  \<^verbatim>\<open>Infinity\<close>, digits with optional fraction and exponent) or an unsigned binary, octal or
  hexadecimal integer literal has its mathematical value, and any other text is NaN.
  A literal whose magnitude is at least \<open>2^1024 - 2^970\<close> converts to an infinity.
\<close>

datatype raw = Txt string | Num jsnum

definition isWhiteSpace :: "char \<Rightarrow> bool" where
  "isWhiteSpace c \<longleftrightarrow> (of_char c :: nat) \<in> {9, 10, 11, 12, 13, 32, 160}"

definition trim :: "string \<Rightarrow> string" where
  "trim s = rev (dropWhile isWhiteSpace (rev (dropWhile isWhiteSpace s)))"

definition digitVal :: "nat \<Rightarrow> char \<Rightarrow> nat option" where
  "digitVal b c =
     (let n = (of_char c :: nat);
          d = (if 48 \<le> n \<and> n \<le> 57 then Some (n - 48)
               else if 97 \<le> n \<and> n \<le> 102 then Some (n - 87)
               else if 65 \<le> n \<and> n \<le> 70 then Some (n - 55)
               else None)
      in case d of None \<Rightarrow> None | Some v \<Rightarrow> if v < b then Some v else None)"

fun digitsAcc :: "nat \<Rightarrow> string \<Rightarrow> nat \<Rightarrow> nat option" where
  "digitsAcc b [] acc = Some acc"
| "digitsAcc b (c # cs) acc =
     (case digitVal b c of None \<Rightarrow> None | Some d \<Rightarrow> digitsAcc b cs (acc * b + d))"

text \<open>The value of a possibly empty run of digits, and of a non-empty one.\<close>

definition digits0 :: "nat \<Rightarrow> string \<Rightarrow> nat option" where
  "digits0 b s = digitsAcc b s 0"

definition digits1 :: "nat \<Rightarrow> string \<Rightarrow> nat option" where
  "digits1 b s = (if s = [] then None else digitsAcc b s 0)"

definition signedInteger :: "string \<Rightarrow> int option" where
  "signedInteger s =
     (case s of
        [] \<Rightarrow> None
      | c # cs \<Rightarrow>
          if c = CHR ''+'' then map_option int (digits1 10 cs)
          else if c = CHR ''-'' then map_option (\<lambda>n. - int n) (digits1 10 cs)
          else map_option int (digits1 10 s))"

definition isExpChar :: "char \<Rightarrow> bool" where
  "isExpChar c \<longleftrightarrow> c = CHR ''e'' \<or> c = CHR ''E''"

definition mantissa :: "string \<Rightarrow> real option" where
  "mantissa m =
     (let ip = takeWhile (\<lambda>c. c \<noteq> CHR ''.'') m;
          rest = dropWhile (\<lambda>c. c \<noteq> CHR ''.'') m
      in if rest = [] then map_option real (digits1 10 ip)
         else let fp = tl rest
              in if ip = [] \<and> fp = [] then None
                 else case (digits0 10 ip, digits0 10 fp) of
                        (Some i, Some f) \<Rightarrow> Some (real i + real f / 10 ^ length fp)
                      | _ \<Rightarrow> None)"

definition scale10 :: "real \<Rightarrow> int \<Rightarrow> real" where
  "scale10 x e = (if 0 \<le> e then x * 10 ^ nat e else x / 10 ^ nat (- e))"

definition unsignedDecimal :: "string \<Rightarrow> jsnum" where
  "unsignedDecimal s =
     (if s = ''Infinity'' then PInf
      else let m = takeWhile (\<lambda>c. \<not> isExpChar c) s;
               rest = dropWhile (\<lambda>c. \<not> isExpChar c) s
           in case mantissa m of
                None \<Rightarrow> NaN
              | Some x \<Rightarrow>
                  if rest = [] then Fin x
                  else case signedInteger (tl rest) of
                         None \<Rightarrow> NaN
                       | Some e \<Rightarrow> Fin (scale10 x e))"

definition strDecimalLiteral :: "string \<Rightarrow> jsnum" where
  "strDecimalLiteral s =
     (case s of
        [] \<Rightarrow> NaN
      | c # cs \<Rightarrow>
          if c = CHR ''+'' then unsignedDecimal cs
          else if c = CHR ''-'' then js_neg (unsignedDecimal cs)
          else unsignedDecimal s)"

definition nonDecimalBase :: "string \<Rightarrow> nat option" where
  "nonDecimalBase s =
     (case s of
        c # d # _ \<Rightarrow>
          if c \<noteq> CHR ''0'' then None
          else if d = CHR ''x'' \<or> d = CHR ''X'' then Some 16
          else if d = CHR ''o'' \<or> d = CHR ''O'' then Some 8
          else if d = CHR ''b'' \<or> d = CHR ''B'' then Some 2
          else None
      | _ \<Rightarrow> None)"

definition overflow :: "jsnum \<Rightarrow> jsnum" where
  "overflow n =
     (case n of
        Fin x \<Rightarrow>
          if 2 ^ 1024 - 2 ^ 970 \<le> x then PInf
          else if x \<le> - (2 ^ 1024 - 2 ^ 970) then NInf
          else Fin x
      | _ \<Rightarrow> n)"

definition stringToNumber :: "string \<Rightarrow> jsnum" where
  "stringToNumber s =
     (let t = trim s
      in if t = [] then Fin 0
         else case nonDecimalBase t of
                Some b \<Rightarrow>
                  (case digits1 b (drop 2 t) of
                     None \<Rightarrow> NaN
                   | Some n \<Rightarrow> overflow (Fin (real n)))
              | None \<Rightarrow> overflow (strDecimalLiteral t))"

fun Number :: "raw \<Rightarrow> jsnum" where
  "Number (Txt s) = stringToNumber s"
| "Number (Num n) = n"

section \<open>Helpers\<close>

text \<open>
  \<^verbatim>\<open>clampNum(v, min, max)\<close>: absent (\<open>None\<close>) when \<open>Number v\<close> is not finite, else the
  value clamped. A value of type \<^verbatim>\<open>number | undefined\<close> is a \<open>jsnum option\<close> throughout.
\<close>

definition clampNum :: "raw \<Rightarrow> jsnum \<Rightarrow> jsnum \<Rightarrow> jsnum option" where
  "clampNum v lo hi =
     (let n = Number v
      in if \<not> isFinite n then None
         else Some (Math_min hi (Math_max lo n)))"

definition mean :: "jsnum option list \<Rightarrow> jsnum option" where
  "mean vals =
     (let v = List.map_filter
                (\<lambda>x. case x of None \<Rightarrow> None | Some n \<Rightarrow> if isFinite n then Some n else None) vals
      in if length v = 0 then None
         else Some (foldl (\<lambda>a b. a + b) (Fin 0) v / Fin (real (length v))))"

definition safeDiv :: "jsnum option \<Rightarrow> jsnum option \<Rightarrow> jsnum option" where
  "safeDiv a b =
     (case (a, b) of
        (Some x, Some y) \<Rightarrow>
          if \<not> isFinite x \<or> \<not> isFinite y \<or> y = Fin 0 then None else Some (x / y)
      | _ \<Rightarrow> None)"

definition isIFG :: "jsnum option \<Rightarrow> bool" where
  "isIFG g0 = (case g0 of None \<Rightarrow> False | Some g \<Rightarrow> g \<ge> Fin 100 \<and> g < Fin 126)"

definition isIGT :: "jsnum option \<Rightarrow> bool" where
  "isIGT g120 = (case g120 of None \<Rightarrow> False | Some g \<Rightarrow> g \<ge> Fin 140 \<and> g < Fin 200)"

text \<open>
  Label texts are written in UTF-8; these are the characters outside ASCII that occur
  in them: en dash, greater-or-equal, less-or-equal, superscript two.
\<close>

definition en_dash :: string where
  "en_dash = [CHR 0xE2, CHR 0x80, CHR 0x93]"

definition ge_sign :: string where
  "ge_sign = [CHR 0xE2, CHR 0x89, CHR 0xA5]"

definition le_sign :: string where
  "le_sign = [CHR 0xE2, CHR 0x89, CHR 0xA4]"

definition sup_two :: string where
  "sup_two = [CHR 0xC2, CHR 0xB2]"

fun join :: "string \<Rightarrow> string list \<Rightarrow> string" where
  "join sep [] = []"
| "join sep [x] = x"
| "join sep (x # y # ys) = x @ sep @ join sep (y # ys)"

section \<open>The baseline snapshot and the comparison result\<close>

text \<open>
  These two records come first because several of their field names are used again by
  later records and by the function \<open>bmi\<close>; their fields are written with the record
  name.
\<close>

record baseline_t =
  timestamp :: string
  weightKg :: "jsnum option"
  bmi :: "jsnum option"
  metsPresent :: bool
  highRisk :: bool
  exactRisk :: "string option"
  flags :: "string list"
  matsuda :: "jsnum option"
  homaIR :: "jsnum option"
  igi :: "jsnum option"
  stumvoll1 :: "jsnum option"
  pgAuc :: "jsnum option"

record comparison_t =
  wlPct :: "jsnum option"
  reversedHighRisk :: bool
  newHighRisk :: bool
  added :: "string list"
  removed :: "string list"

section \<open>The component's state\<close>

datatype sex = SexUnset | Female | Male

datatype ethnicity =
  EthUnset | African_American | Hispanic_Latino | Native_American | Asian_American
  | White | Other

text \<open>The selections and check boxes, which are used as they are.\<close>

record choices =
  sex :: sex
  ethnicity :: ethnicity
  onBPtx :: bool
  hxGDM :: bool
  hxPancreatitis :: bool
  hasMASLD :: bool
  hasPCOS :: bool
  fhxT2D :: bool

text \<open>The text of the numeric fields; each starts as the empty text.\<close>

record form = choices +
  age :: string
  weightKg :: string
  heightCm :: string
  waistCm :: string
  sbp :: string
  dbp :: string
  tg :: string
  hdl :: string
  a1c :: string
  g0 :: string
  g30 :: string
  g60 :: string
  g90 :: string
  g120 :: string
  i0 :: string
  i30 :: string
  i60 :: string
  i90 :: string
  i120 :: string

text \<open>The parsed values every later step reads.\<close>

record inputs = choices +
  nAge :: "jsnum option"
  nWeight :: "jsnum option"
  nHeight :: "jsnum option"
  nWaist :: "jsnum option"
  nSBP :: "jsnum option"
  nDBP :: "jsnum option"
  nTG :: "jsnum option"
  nHDL :: "jsnum option"
  nA1c :: "jsnum option"
  ng0 :: "jsnum option"
  ng30 :: "jsnum option"
  ng60 :: "jsnum option"
  ng90 :: "jsnum option"
  ng120 :: "jsnum option"
  ni0 :: "jsnum option"
  ni30 :: "jsnum option"
  ni60 :: "jsnum option"
  ni90 :: "jsnum option"
  ni120 :: "jsnum option"

definition normalize :: "form \<Rightarrow> inputs" where
  "normalize f =
     \<lparr> sex = sex f, ethnicity = ethnicity f, onBPtx = onBPtx f, hxGDM = hxGDM f,
       hxPancreatitis = hxPancreatitis f, hasMASLD = hasMASLD f, hasPCOS = hasPCOS f,
       fhxT2D = fhxT2D f,
       nAge = clampNum (Txt (age f)) (Fin 10) (Fin 100),
       nWeight = clampNum (Txt (weightKg f)) (Fin 20) (Fin 300),
       nHeight = clampNum (Txt (heightCm f)) (Fin 100) (Fin 230),
       nWaist = clampNum (Txt (waistCm f)) (Fin 40) (Fin 200),
       nSBP = clampNum (Txt (sbp f)) (Fin 60) (Fin 260),
       nDBP = clampNum (Txt (dbp f)) (Fin 30) (Fin 160),
       nTG = clampNum (Txt (tg f)) (Fin 20) (Fin 2000),
       nHDL = clampNum (Txt (hdl f)) (Fin 5) (Fin 200),
       nA1c = clampNum (Txt (a1c f)) (Fin 3.5) (Fin 15),
       ng0 = clampNum (Txt (g0 f)) (Fin 40) (Fin 600),
       ng30 = clampNum (Txt (g30 f)) (Fin 40) (Fin 600),
       ng60 = clampNum (Txt (g60 f)) (Fin 40) (Fin 600),
       ng90 = clampNum (Txt (g90 f)) (Fin 40) (Fin 600),
       ng120 = clampNum (Txt (g120 f)) (Fin 40) (Fin 600),
       ni0 = clampNum (Txt (i0 f)) (Fin 0) (Fin 1000),
       ni30 = clampNum (Txt (i30 f)) (Fin 0) (Fin 2000),
       ni60 = clampNum (Txt (i60 f)) (Fin 0) (Fin 3000),
       ni90 = clampNum (Txt (i90 f)) (Fin 0) (Fin 3000),
       ni120 = clampNum (Txt (i120 f)) (Fin 0) (Fin 3000) \<rparr>"

definition bmi :: "inputs \<Rightarrow> jsnum option" where
  "bmi s =
     (case (nWeight s, nHeight s) of
        (Some w, Some h) \<Rightarrow>
          let m = h / Fin 100
          in if \<not> truthy m then None else Some (w / (m * m))
      | _ \<Rightarrow> None)"

definition isAsian :: "inputs \<Rightarrow> bool" where
  "isAsian s \<longleftrightarrow> ethnicity s = Asian_American"

definition highRiskEthnicity :: "inputs \<Rightarrow> bool" where
  "highRiskEthnicity s \<longleftrightarrow>
     ethnicity s \<in> set [African_American, Hispanic_Latino, Native_American, Asian_American]"

section \<open>Step 1: OGTT indication\<close>

record riskFactor =
  ok :: bool
  label :: string

record indication =
  indicated :: bool
  reasons :: "string list"

definition bmiThreshold :: "inputs \<Rightarrow> nat" where
  "bmiThreshold s = (if isAsian s then 23 else 25)"

definition riskFactors :: "inputs \<Rightarrow> riskFactor list" where
  "riskFactors s =
     [ \<lparr> ok = hasMASLD s, label = ''MASLD'' \<rparr>,
       \<lparr> ok = (case (nSBP s, nDBP s) of
                 (Some sb, Some db) \<Rightarrow> sb \<ge> Fin 130 \<or> db \<ge> Fin 80
               | _ \<Rightarrow> False) \<or> onBPtx s,
         label = ''Hypertension ('' @ ge_sign @ ''130/80 or on treatment)'' \<rparr>,
       \<lparr> ok = (case nHDL s of None \<Rightarrow> False | Some h \<Rightarrow> h < Fin 35)
               \<or> (case nTG s of None \<Rightarrow> False | Some t \<Rightarrow> t > Fin 250),
         label = ''Dyslipidemia (HDL <35 or TG >250)'' \<rparr>,
       \<lparr> ok = hasPCOS s, label = ''PCOS'' \<rparr>,
       \<lparr> ok = fhxT2D s, label = ''First-degree relative with T2D'' \<rparr>,
       \<lparr> ok = highRiskEthnicity s, label = ''High-risk ethnicity'' \<rparr> ]"

definition ogttIndication :: "inputs \<Rightarrow> indication" where
  "ogttIndication s =
     (let r1 = (if (case ng0 s of None \<Rightarrow> False | Some g \<Rightarrow> g \<ge> Fin 100 \<and> g < Fin 126)
                then [''FPG 100'' @ en_dash @ ''125 mg/dL''] else []);
          r2 = (if (case nA1c s of None \<Rightarrow> False | Some a \<Rightarrow> a \<ge> Fin 5.7 \<and> a \<le> Fin 6.4)
                then [''HbA1c 5.7'' @ en_dash @ ''6.4%''] else []);
          r3 = (if hxGDM s then [''History of gestational diabetes''] else []);
          r4 = (if hxPancreatitis s then [''History of pancreatitis''] else []);
          meetsBMI = (case bmi s of None \<Rightarrow> False
                      | Some b \<Rightarrow> b \<ge> Fin (real (bmiThreshold s)));
          rfMet = filter ok (riskFactors s);
          r5 = (if meetsBMI \<and> length rfMet \<ge> 1
                then [''BMI '' @ ge_sign @ (if isAsian s then ''23'' else ''25'') @ '' kg/m''
                      @ sup_two @ '' plus risk factor(s): '' @ join '', '' (map label rfMet)]
                else []);
          reasons = r1 @ r2 @ r3 @ r4 @ r5
      in \<lparr> indicated = (length reasons > 0), reasons = reasons \<rparr>)"

section \<open>Step 2: metabolic syndrome (ATP III)\<close>

record criterion =
  name :: string
  met :: bool
  detail :: string

record metS_result =
  present :: bool
  metCount :: nat
  criteria :: "criterion list"

definition metabolicSyndrome :: "inputs \<Rightarrow> metS_result" where
  "metabolicSyndrome s =
     (let waist =
            (case nWaist s of
               Some w \<Rightarrow>
                 if sex s \<noteq> SexUnset
                 then \<lparr> name = ''Waist circumference'',
                        met = (if sex s = Male then w > Fin 102 else w > Fin 88),
                        detail = (if sex s = Male then ''>102 cm'' else ''>88 cm'') \<rparr>
                 else \<lparr> name = ''Waist circumference'', met = False,
                        detail = ''Enter sex + waist'' \<rparr>
             | None \<Rightarrow> \<lparr> name = ''Waist circumference'', met = False,
                          detail = ''Enter sex + waist'' \<rparr>);
          trig =
            (case nTG s of
               Some t \<Rightarrow> \<lparr> name = ''Triglycerides'', met = (t \<ge> Fin 150),
                            detail = ge_sign @ ''150 mg/dL'' \<rparr>
             | None \<Rightarrow> \<lparr> name = ''Triglycerides'', met = False, detail = ''Enter TG'' \<rparr>);
          hdlc =
            (case nHDL s of
               Some h \<Rightarrow>
                 if sex s \<noteq> SexUnset
                 then \<lparr> name = ''HDL'',
                        met = (if sex s = Male then h < Fin 40 else h < Fin 50),
                        detail = (if sex s = Male then ''<40 mg/dL'' else ''<50 mg/dL'') \<rparr>
                 else \<lparr> name = ''HDL'', met = False, detail = ''Enter sex + HDL'' \<rparr>
             | None \<Rightarrow> \<lparr> name = ''HDL'', met = False, detail = ''Enter sex + HDL'' \<rparr>);
          bp =
            (if onBPtx s
             then \<lparr> name = ''Blood pressure'', met = True, detail = ''On treatment'' \<rparr>
             else case (nSBP s, nDBP s) of
                    (Some sb, Some db) \<Rightarrow>
                      \<lparr> name = ''Blood pressure'', met = (sb \<ge> Fin 130 \<or> db \<ge> Fin 85),
                        detail = ge_sign @ ''130/85'' \<rparr>
                  | _ \<Rightarrow> \<lparr> name = ''Blood pressure'', met = False,
                           detail = ''Enter BP or treatment'' \<rparr>);
          fpg =
            (case ng0 s of
               Some g \<Rightarrow> \<lparr> name = ''Fasting glucose'', met = (g \<ge> Fin 100),
                            detail = ge_sign @ ''100 mg/dL'' \<rparr>
             | None \<Rightarrow> \<lparr> name = ''Fasting glucose'', met = False,
                          detail = ''Enter fasting glucose'' \<rparr>);
          criteria = [waist, trig, hdlc, bp, fpg];
          metCount = foldl (\<lambda>acc c. acc + (if met c then 1 else 0)) 0 criteria
      in \<lparr> present = (metCount \<ge> 3), metCount = metCount, criteria = criteria \<rparr>)"

section \<open>Indices\<close>

record indices_t =
  gMean :: "jsnum option"
  iMean :: "jsnum option"
  homaIR :: "jsnum option"
  homaIRCutoff :: jsnum
  matsuda :: "jsnum option"
  igi :: "jsnum option"
  stumvoll1 :: "jsnum option"
  stumvoll2 :: "jsnum option"
  di :: "jsnum option"
  homaBeta :: "jsnum option"
  pgAucWeighted :: "jsnum option"

definition indices :: "inputs \<Rightarrow> indices_t" where
  "indices s =
     (let gMean = mean [ng0 s, ng30 s, ng60 s, ng90 s, ng120 s];
          iMean = mean [ni0 s, ni30 s, ni60 s, ni90 s, ni120 s];
          homaIR =
            (case (ng0 s, ni0 s) of
               (Some g, Some i) \<Rightarrow> safeDiv (Some (g * i)) (Some (Fin 405))
             | _ \<Rightarrow> None);
          homaIRCutoff =
            (if hasMASLD s then Fin 2
             else if (case bmi s of None \<Rightarrow> False | Some b \<Rightarrow> b > Fin 27.5) then Fin 3.6
             else Fin 4.65);
          matsuda =
            (case (ng0 s, ni0 s, gMean, iMean) of
               (Some g, Some i, Some gm, Some im) \<Rightarrow>
                 let denom = js_sqrt ((g * i) * (gm * im))
                 in if \<not> isFinite denom \<or> denom = Fin 0 then None
                    else Some (Fin 10000 / denom)
             | _ \<Rightarrow> None);
          igi =
            (case (ni30 s, ni0 s, ng30 s, ng0 s) of
               (Some j30, Some j0, Some h30, Some h0) \<Rightarrow>
                 let denom = h30 - h0
                 in if denom = Fin 0 then None else Some ((j30 - j0) / denom)
             | _ \<Rightarrow> None);
          i0_pmol = map_option (\<lambda>x. x * Fin 6) (ni0 s);
          i30_pmol = map_option (\<lambda>x. x * Fin 6) (ni30 s);
          g30_mmol = map_option (\<lambda>x. x / Fin 18) (ng30 s);
          stumvoll1 =
            (case (i30_pmol, g30_mmol, i0_pmol) of
               (Some p30, Some m30, Some p0) \<Rightarrow>
                 Some (Fin 1283 + Fin 1.829 * p30 - Fin 138.7 * m30 + Fin 3.772 * p0)
             | _ \<Rightarrow> None);
          stumvoll2 =
            (case (i30_pmol, g30_mmol, i0_pmol) of
               (Some p30, Some m30, Some p0) \<Rightarrow>
                 Some (Fin 287 + Fin 0.4164 * p30 - Fin 26.07 * m30 + Fin 0.9226 * p0)
             | _ \<Rightarrow> None);
          di =
            (case (matsuda, igi) of
               (Some m, Some x) \<Rightarrow> Some (m * x)
             | _ \<Rightarrow> None);
          homaBeta =
            (case (ni0 s, ng0 s) of
               (Some j0, Some h0) \<Rightarrow>
                 let denom = h0 - Fin 63
                 in if denom = Fin 0 then None else Some ((j0 * Fin 360) / denom)
             | _ \<Rightarrow> None);
          pgAucWeighted =
            (case (ng0 s, ng30 s, ng60 s, ng120 s) of
               (Some h0, Some h30, Some h60, Some h120) \<Rightarrow>
                 Some ((h0 + Fin 2 * h30 + Fin 3 * h60 + Fin 2 * h120) / Fin 4)
             | _ \<Rightarrow> None)
      in \<lparr> gMean = gMean, iMean = iMean, homaIR = homaIR, homaIRCutoff = homaIRCutoff,
           matsuda = matsuda, igi = igi, stumvoll1 = stumvoll1, stumvoll2 = stumvoll2,
           di = di, homaBeta = homaBeta, pgAucWeighted = pgAucWeighted \<rparr>)"

section \<open>Step 3: high-risk prognostic markers\<close>

datatype severity = Danger | Warn | Neutral

record flag =
  label :: string
  severity :: severity
  exactRisk :: "string option"

record risk_result =
  IFG :: bool
  IGT :: bool
  oneHourHigh :: bool
  a1cHigh :: bool
  igiLow :: bool
  firstPhaseLow :: bool
  metS :: bool
  flags :: "flag list"
  highRisk :: bool
  exactRisk :: "string option"

text \<open>An optional text is truthy when it is present and not empty.\<close>

definition truthy_text :: "string option \<Rightarrow> bool" where
  "truthy_text t \<longleftrightarrow> (case t of None \<Rightarrow> False | Some x \<Rightarrow> x \<noteq> [])"

definition risk :: "inputs \<Rightarrow> risk_result" where
  "risk s =
     (let IFG = isIFG (ng0 s);
          IGT = isIGT (ng120 s);
          oneHourHigh = (case ng60 s of None \<Rightarrow> False | Some g \<Rightarrow> g > Fin 155);
          a1cHigh = (case nA1c s of None \<Rightarrow> False | Some a \<Rightarrow> a \<ge> Fin 6.0 \<and> a \<le> Fin 6.4);
          igiLow = (case igi (indices s) of None \<Rightarrow> False | Some x \<Rightarrow> x \<le> Fin 0.82);
          firstPhaseLow =
            (case stumvoll1 (indices s) of None \<Rightarrow> False | Some x \<Rightarrow> x \<le> Fin 1007);
          metS = present (metabolicSyndrome s);
          flags =
            (if IGT \<and> oneHourHigh \<and> metS
             then [\<lparr> label = ''IGT + 1-hour PG >155 mg/dL + metabolic syndrome'',
                     severity = Danger, exactRisk = Some ''52.8%'' \<rparr>] else [])
            @ (if IFG \<and> IGT
               then [\<lparr> label = ''Combined IFG and IGT'',
                       severity = Danger, exactRisk = Some ''>50%'' \<rparr>] else [])
            @ (if IFG \<and> oneHourHigh \<and> metS
               then [\<lparr> label = ''IFG + 1-hour PG >155 mg/dL + metabolic syndrome'',
                       severity = Danger, exactRisk = Some ''37.8%'' \<rparr>] else [])
            @ (if (IGT \<or> IFG) \<and> oneHourHigh \<and> a1cHigh
               then [\<lparr> label = ''IGT or IFG + 1-hour PG >155 mg/dL + HbA1c 6.0''
                               @ en_dash @ ''6.4%'',
                       severity = Danger, exactRisk = None \<rparr>] else [])
            @ (if (IGT \<or> IFG) \<and> oneHourHigh \<and> (igiLow \<or> firstPhaseLow)
               then [\<lparr> label = ''IGT or IFG + 1-hour PG >155 mg/dL + IGI '' @ le_sign
                               @ ''0.82 and/or 1st-phase insulin secretion '' @ le_sign
                               @ ''1007 pmol/L'',
                       severity = Danger, exactRisk = None \<rparr>] else [])
            @ (if IFG
               then [\<lparr> label = ''IFG present (FPG 100'' @ en_dash @ ''125 mg/dL)'',
                       severity = Warn, exactRisk = None \<rparr>] else [])
            @ (if IGT
               then [\<lparr> label = ''IGT present (2-hour PG 140'' @ en_dash @ ''199 mg/dL)'',
                       severity = Warn, exactRisk = None \<rparr>] else [])
            @ (if oneHourHigh
               then [\<lparr> label = ''1-hour PG >155 mg/dL'',
                       severity = Warn, exactRisk = None \<rparr>] else [])
            @ (if metS
               then [\<lparr> label = ''Metabolic syndrome present (ATP III)'',
                       severity = Warn, exactRisk = None \<rparr>] else []);
          highRisk = list_ex (\<lambda>f. severity f = Danger) flags;
          exactRisk =
            (case List.find (\<lambda>f. truthy_text (flag.exactRisk f)) flags of
               None \<Rightarrow> None
             | Some f \<Rightarrow> flag.exactRisk f)
      in \<lparr> IFG = IFG, IGT = IGT, oneHourHigh = oneHourHigh, a1cHigh = a1cHigh,
           igiLow = igiLow, firstPhaseLow = firstPhaseLow, metS = metS, flags = flags,
           highRisk = highRisk, exactRisk = exactRisk \<rparr>)"

section \<open>Step 4: age-based eligibility and weight-loss target\<close>

record weightLoss_t =
  lowKg :: jsnum
  highKg :: jsnum

record step4_result =
  applies :: bool
  decision :: string
  weightLoss :: "weightLoss_t option"

definition step4 :: "inputs \<Rightarrow> step4_result" where
  "step4 s =
     (if \<not> highRisk (risk s)
      then \<lparr> applies = False,
             decision = ''Not in high-risk group based on Step 3 criteria.'',
             weightLoss = None \<rparr>
      else case nAge s of
             None \<Rightarrow>
               \<lparr> applies = True,
                 decision = ''High-risk group: enter age to determine eligibility recommendation.'',
                 weightLoss = None \<rparr>
           | Some a \<Rightarrow>
               let decision =
                     (if a < Fin 40 then ''Age <40 years: Not a candidate (high risk).''
                      else if a \<ge> Fin 40 \<and> a \<le> Fin 49
                      then ''Age 40'' @ en_dash @ ''49 years: Consider only if able to reverse high-risk prognostic markers with weight loss on repeat OGTT.''
                      else ''Age '' @ ge_sign @ ''50 years: Can be accepted after risk mitigation with 5''
                           @ en_dash @ ''10% weight loss.'');
                   wl = (case nWeight s of
                           None \<Rightarrow> None
                         | Some w \<Rightarrow> Some \<lparr> lowKg = w * Fin 0.05, highKg = w * Fin 0.10 \<rparr>)
               in \<lparr> applies = True, decision = decision, weightLoss = wl \<rparr>)"

section \<open>Baseline snapshot and comparison\<close>

text \<open>The rendered label of a flag: the label, with the exact risk in brackets if any.\<close>

definition flagLabel :: "flag \<Rightarrow> string" where
  "flagLabel f =
     (if truthy_text (flag.exactRisk f)
      then flag.label f @ '' ['' @ the (flag.exactRisk f) @ '']''
      else flag.label f)"

text \<open>\<open>saveBaseline\<close>; the time stamp, read from the clock, is a parameter.\<close>

definition saveBaseline :: "string \<Rightarrow> inputs \<Rightarrow> baseline_t" where
  "saveBaseline ts s =
     \<lparr> baseline_t.timestamp = ts,
       baseline_t.weightKg = nWeight s,
       baseline_t.bmi = bmi s,
       baseline_t.metsPresent = present (metabolicSyndrome s),
       baseline_t.highRisk = highRisk (risk s),
       baseline_t.exactRisk = exactRisk (risk s),
       baseline_t.flags = map flagLabel (flags (risk s)),
       baseline_t.matsuda = matsuda (indices s),
       baseline_t.homaIR = homaIR (indices s),
       baseline_t.igi = igi (indices s),
       baseline_t.stumvoll1 = stumvoll1 (indices s),
       baseline_t.pgAuc = pgAucWeighted (indices s) \<rparr>"

text \<open>The elements of a \<^verbatim>\<open>Set\<close> built from a list, in insertion order.\<close>

definition Set_of :: "string list \<Rightarrow> string list" where
  "Set_of xs = rev (remdups (rev xs))"

definition comparison :: "baseline_t option \<Rightarrow> inputs \<Rightarrow> comparison_t option" where
  "comparison baseline s =
     (case baseline of
        None \<Rightarrow> None
      | Some b \<Rightarrow>
          let nowWeight = nWeight s;
              wlPct =
                (case (baseline_t.weightKg b, nowWeight) of
                   (Some bw, Some nw) \<Rightarrow>
                     if bw > Fin 0 then Some (((bw - nw) / bw) * Fin 100) else None
                 | _ \<Rightarrow> None);
              reversedHighRisk =
                (baseline_t.highRisk b \<and> \<not> highRisk (risk s));
              newHighRisk = (\<not> baseline_t.highRisk b \<and> highRisk (risk s));
              baseFlags = Set_of (baseline_t.flags b);
              nowFlags = Set_of (map flagLabel (flags (risk s)));
              added = filter (\<lambda>x. x \<notin> set baseFlags) nowFlags;
              removed = filter (\<lambda>x. x \<notin> set nowFlags) baseFlags
          in Some \<lparr> wlPct = wlPct, reversedHighRisk = reversedHighRisk,
                    newHighRisk = newHighRisk, added = added, removed = removed \<rparr>)"

section \<open>Inputs used in examples\<close>

text \<open>The form as it starts: every text empty, nothing selected.\<close>

definition initialForm :: form where
  "initialForm =
     \<lparr> sex = SexUnset, ethnicity = EthUnset, onBPtx = False, hxGDM = False,
       hxPancreatitis = False, hasMASLD = False, hasPCOS = False, fhxT2D = False,
       age = '''', weightKg = '''', heightCm = '''', waistCm = '''', sbp = '''', dbp = '''',
       tg = '''', hdl = '''', a1c = '''', g0 = '''', g30 = '''', g60 = '''', g90 = '''',
       g120 = '''', i0 = '''', i30 = '''', i60 = '''', i90 = '''', i120 = '''' \<rparr>"

text \<open>Parsed values with every number absent and nothing selected.\<close>

definition noInputs :: inputs where
  "noInputs =
     \<lparr> sex = SexUnset, ethnicity = EthUnset, onBPtx = False, hxGDM = False,
       hxPancreatitis = False, hasMASLD = False, hasPCOS = False, fhxT2D = False,
       nAge = None, nWeight = None, nHeight = None, nWaist = None, nSBP = None,
       nDBP = None, nTG = None, nHDL = None, nA1c = None,
       ng0 = None, ng30 = None, ng60 = None, ng90 = None, ng120 = None,
       ni0 = None, ni30 = None, ni60 = None, ni90 = None, ni120 = None \<rparr>"

text \<open>Fasting glucose 110 and two-hour glucose 150: IFG and IGT together.\<close>

definition ifg_igt :: inputs where
  "ifg_igt = noInputs \<lparr> ng0 := Some (Fin 110), ng120 := Some (Fin 150) \<rparr>"

text \<open>Fasting glucose 110 alone: IFG only.\<close>

definition ifg_only :: inputs where
  "ifg_only = noInputs \<lparr> ng0 := Some (Fin 110) \<rparr>"

text \<open>
  IFG and IGT, one-hour glucose 160, and three criteria of the metabolic syndrome met
  (triglycerides 200, on treatment, fasting glucose 110).
\<close>

definition all_rules :: inputs where
  "all_rules =
     noInputs \<lparr> onBPtx := True, nTG := Some (Fin 200), ng0 := Some (Fin 110),
                ng60 := Some (Fin 160), ng120 := Some (Fin 150) \<rparr>"

text \<open>A man with waist 110, triglycerides 200, on treatment; the rest absent.\<close>

definition three_met :: inputs where
  "three_met =
     noInputs \<lparr> sex := Male, onBPtx := True, nWaist := Some (Fin 110),
                nTG := Some (Fin 200) \<rparr>"

text \<open>A woman with waist 90 and triglycerides 200, systolic 150 and no diastolic value.\<close>

definition two_met :: inputs where
  "two_met =
     noInputs \<lparr> sex := Female, nWaist := Some (Fin 90), nSBP := Some (Fin 150),
                nTG := Some (Fin 200) \<rparr>"

text \<open>
  A man with every value present and none past its cut-off: waist 90, triglycerides 100,
  HDL 60, blood pressure 120/80, fasting glucose 90, no treatment.
\<close>

definition healthy_man :: inputs where
  "healthy_man =
     noInputs \<lparr> sex := Male, nWaist := Some (Fin 90), nSBP := Some (Fin 120),
                nDBP := Some (Fin 80), nTG := Some (Fin 100), nHDL := Some (Fin 60),
                ng0 := Some (Fin 90) \<rparr>"

text \<open>
  A woman with every value present and each past its cut-off: waist 89, triglycerides 150,
  HDL 49, blood pressure 120/85, fasting glucose 100, no treatment.
\<close>

definition all_met_woman :: inputs where
  "all_met_woman =
     noInputs \<lparr> sex := Female, nWaist := Some (Fin 89), nSBP := Some (Fin 120),
                nDBP := Some (Fin 85), nTG := Some (Fin 150), nHDL := Some (Fin 49),
                ng0 := Some (Fin 100) \<rparr>"

text \<open>
  A man with the values that are past the cut-offs of a woman but not of a man: waist 100,
  HDL 45; triglycerides 149, blood pressure 129/84, fasting glucose 99.
\<close>

definition borderline_man :: inputs where
  "borderline_man =
     noInputs \<lparr> sex := Male, nWaist := Some (Fin 100), nSBP := Some (Fin 129),
                nDBP := Some (Fin 84), nTG := Some (Fin 149), nHDL := Some (Fin 45),
                ng0 := Some (Fin 99) \<rparr>"

text \<open>Weight 81 kg, height 180 cm (BMI 25), systolic 150, diastolic not entered.\<close>

definition systolic_only :: inputs where
  "systolic_only =
     noInputs \<lparr> nWeight := Some (Fin 81), nHeight := Some (Fin 180),
                nSBP := Some (Fin 150) \<rparr>"

text \<open>The same with diastolic 70.\<close>

definition systolic_diastolic :: inputs where
  "systolic_diastolic = systolic_only \<lparr> nDBP := Some (Fin 70) \<rparr>"

text \<open>The glucose curve 90, 150, 180, 999, 130.\<close>

definition curve :: inputs where
  "curve =
     noInputs \<lparr> ng0 := Some (Fin 90), ng30 := Some (Fin 150), ng60 := Some (Fin 180),
                ng90 := Some (Fin 999), ng120 := Some (Fin 130) \<rparr>"

text \<open>IFG and IGT with weight 100 kg, with no age and at a given age.\<close>

definition high_risk_no_age :: inputs where
  "high_risk_no_age = ifg_igt \<lparr> nWeight := Some (Fin 100) \<rparr>"

definition high_risk_age :: "real \<Rightarrow> inputs" where
  "high_risk_age a = high_risk_no_age \<lparr> nAge := Some (Fin a) \<rparr>"

text \<open>The current state with weight 92 kg and no glucose value.\<close>

definition lighter :: inputs where
  "lighter = noInputs \<lparr> nWeight := Some (Fin 92) \<rparr>"

text \<open>A form with equal glucose at 0 and 30 minutes, and one with fasting glucose 63.\<close>

definition flat_form :: form where
  "flat_form = initialForm \<lparr> g0 := ''95'', g30 := ''95'', i0 := ''10'', i30 := ''60'' \<rparr>"

definition sixty_three_form :: form where
  "sixty_three_form = initialForm \<lparr> g0 := ''63'', i0 := ''10'' \<rparr>"

section \<open>Finite values\<close>

text \<open>An optional number that is absent or finite, and parsed values that all are.\<close>

definition finite_opt :: "jsnum option \<Rightarrow> bool" where
  "finite_opt x = (case x of None \<Rightarrow> True | Some n \<Rightarrow> isFinite n)"

definition finite_inputs :: "inputs \<Rightarrow> bool" where
  "finite_inputs s \<longleftrightarrow>
     list_all finite_opt
       [nAge s, nWeight s, nHeight s, nWaist s, nSBP s, nDBP s, nTG s, nHDL s, nA1c s,
        ng0 s, ng30 s, ng60 s, ng90 s, ng120 s, ni0 s, ni30 s, ni60 s, ni90 s, ni120 s]"

section \<open>Properties of the normalizer\<close>

lemma stringToNumber_empty: "stringToNumber [] = Fin 0"
  by (simp add: stringToNumber_def trim_def)

lemmas parse_defs =
  stringToNumber_def trim_def isWhiteSpace_def nonDecimalBase_def overflow_def
  strDecimalLiteral_def unsignedDecimal_def mantissa_def isExpChar_def digits1_def
  digits0_def digitVal_def

lemma clampNum_finite_value:
  "Number v = Fin n \<Longrightarrow> clampNum v (Fin lo) (Fin hi) = Some (Fin (min hi (max lo n)))"
  by (simp add: clampNum_def Let_def Math_max_def Math_min_def min_def max_def)

lemma clampNum_not_finite:
  "\<not> isFinite (Number v) \<Longrightarrow> clampNum v lo hi = None"
  by (simp add: clampNum_def Let_def)

lemma clampNum_range:
  assumes "clampNum v (Fin lo) (Fin hi) = Some x" and "lo \<le> hi"
  shows "\<exists>r. x = Fin r \<and> lo \<le> r \<and> r \<le> hi"
proof (cases "isFinite (Number v)")
  case True
  then obtain n where "Number v = Fin n"
    by (cases "Number v") simp_all
  from clampNum_finite_value[OF this, of lo hi] assms show ?thesis
    by auto
next
  case False
  from clampNum_not_finite[OF this, of "Fin lo" "Fin hi"] assms show ?thesis
    by simp
qed

lemma isFinite_iff: "isFinite x \<longleftrightarrow> (\<exists>r. x = Fin r)"
  by (cases x) simp_all

lemma finite_opt_simps [simp]:
  "finite_opt None" "finite_opt (Some x) = isFinite x"
  by (simp_all add: finite_opt_def)

lemma finite_optE:
  assumes "finite_opt x"
  obtains "x = None" | r where "x = Some (Fin r)"
  using assms by (cases x) (auto simp add: isFinite_iff)

lemma clampNum_finite: "finite_opt (clampNum v (Fin lo) (Fin hi))"
  by (cases "Number v")
     (simp_all add: clampNum_def Let_def Math_max_def Math_min_def)

lemma normalize_finite: "finite_inputs (normalize f)"
  by (simp add: finite_inputs_def normalize_def clampNum_finite)

text \<open>
  Claim C3 (the normalizer returns the parsed value clamped, and absent for text that is
  not a number): the empty text is not a number, yet it is not normalized to absent. At
  the age field, whose range is 10 to 100, the empty text gives 10, and so the form as it
  starts has age 10.
\<close>

theorem clampNum_empty_text_age:
  "clampNum (Txt '''') (Fin 10) (Fin 100) = Some (Fin 10)
   \<and> nAge (normalize initialForm) = Some (Fin 10)"
  by (simp add: clampNum_def stringToNumber_empty Math_max_def Math_min_def normalize_def
        initialForm_def Let_def)

lemma clampNum_empty_text:
  assumes "Fin 0 \<le> lo" and "lo \<le> hi"
  shows "clampNum (Txt '''') lo hi = Some lo"
proof (cases lo)
  case (Fin a)
  with assms show ?thesis
    by (cases hi)
       (auto simp add: clampNum_def Math_max_def Math_min_def stringToNumber_empty Let_def)
next
  case PInf
  with assms show ?thesis
    by (cases hi)
       (auto simp add: clampNum_def Math_max_def Math_min_def stringToNumber_empty Let_def)
next
  case NInf
  with assms show ?thesis by simp
next
  case NaN
  with assms show ?thesis by simp
qed

text \<open>
  Claim C4: for every range with \<open>0 \<le> min \<le> max\<close>, the normalizer applied to the empty
  text returns \<open>min\<close>, not absent; and so every numeric field of the form as it starts,
  where each text is empty, is normalized to the lower bound of its range.
\<close>

theorem clampNum_empty_text_min:
  "(Fin 0 \<le> lo \<and> lo \<le> hi \<longrightarrow> clampNum (Txt '''') lo hi = Some lo)
   \<and> normalize initialForm =
       noInputs \<lparr> nAge := Some (Fin 10), nWeight := Some (Fin 20),
         nHeight := Some (Fin 100), nWaist := Some (Fin 40), nSBP := Some (Fin 60),
         nDBP := Some (Fin 30), nTG := Some (Fin 20), nHDL := Some (Fin 5),
         nA1c := Some (Fin 3.5), ng0 := Some (Fin 40), ng30 := Some (Fin 40),
         ng60 := Some (Fin 40), ng90 := Some (Fin 40), ng120 := Some (Fin 40),
         ni0 := Some (Fin 0), ni30 := Some (Fin 0), ni60 := Some (Fin 0),
         ni90 := Some (Fin 0), ni120 := Some (Fin 0) \<rparr>"
  by (simp add: clampNum_empty_text normalize_def initialForm_def noInputs_def)

text \<open>The glucose range 40 to 600: the empty text gives 40.\<close>

theorem clampNum_empty_text_min_witness:
  "Fin 0 \<le> Fin 40 \<and> Fin 40 \<le> Fin 600
   \<and> clampNum (Txt '''') (Fin 40) (Fin 600) = Some (Fin 40)"
  using clampNum_empty_text_min[of "Fin 40" "Fin 600"] by simp

section \<open>Properties of Step 1\<close>

text \<open>
  Claim C6 as stated (a systolic value of at least 130 satisfies the hypertension risk
  factor even when the diastolic value is absent) fails: with systolic 150, no diastolic
  value and no treatment the risk factor is not met, and with BMI 25 and nothing else the
  test is not indicated.
\<close>

theorem hypertension_systolic_only_counterexample:
  "nSBP systolic_only = Some (Fin 150) \<and> Fin 150 \<ge> Fin 130 \<and> nDBP systolic_only = None
   \<and> \<not> ok (riskFactors systolic_only ! 1)
   \<and> \<not> indicated (ogttIndication systolic_only)"
  by (simp add: systolic_only_def noInputs_def riskFactors_def ogttIndication_def Let_def
        bmi_def truthy_def bmiThreshold_def isAsian_def highRiskEthnicity_def)

text \<open>
  Claim C6, amended: the hypertension risk factor holds exactly when the patient is on
  antihypertensive treatment, or both the systolic and the diastolic value are present and
  systolic is at least 130 or diastolic at least 80.
\<close>

theorem hypertension_risk_factor:
  "ok (riskFactors s ! 1) \<longleftrightarrow>
     onBPtx s
     \<or> (\<exists>sb db. nSBP s = Some sb \<and> nDBP s = Some db \<and> (sb \<ge> Fin 130 \<or> db \<ge> Fin 80))"
  by (auto simp add: riskFactors_def split: option.splits)

text \<open>With systolic 150 and diastolic 70 both present, the risk factor is met.\<close>

theorem hypertension_risk_factor_witness:
  "nSBP systolic_diastolic = Some (Fin 150) \<and> nDBP systolic_diastolic = Some (Fin 70)
   \<and> ok (riskFactors systolic_diastolic ! 1)
   \<and> indicated (ogttIndication systolic_diastolic)"
  using hypertension_risk_factor[of systolic_diastolic]
  by (simp add: systolic_diastolic_def systolic_only_def noInputs_def riskFactors_def
        ogttIndication_def Let_def bmi_def truthy_def bmiThreshold_def isAsian_def
        highRiskEthnicity_def)

section \<open>Properties of Step 2\<close>

lemma count_met:
  "foldl (\<lambda>acc c. acc + (if met c then 1 else 0)) n cs = n + length (filter met cs)"
  by (induction cs arbitrary: n) simp_all

lemma metCount_criteria:
  "metCount (metabolicSyndrome s) =
     foldl (\<lambda>acc c. acc + (if met c then 1 else 0)) 0 (criteria (metabolicSyndrome s))"
  by (simp only: metabolicSyndrome_def Let_def metS_result.select_convs)

lemma present_metCount:
  "present (metabolicSyndrome s) \<longleftrightarrow> 3 \<le> metCount (metabolicSyndrome s)"
  by (simp only: metabolicSyndrome_def Let_def metS_result.select_convs)

text \<open>
  Claim C5: Step 2 evaluates exactly five criteria, each against its cut-off: waist above
  102 cm for a man and above 88 cm for a woman, triglycerides at least 150, HDL below 40
  for a man and below 50 for a woman, systolic at least 130 or diastolic at least 85,
  fasting glucose at least 100. A criterion whose inputs are absent is not met; treatment
  alone meets the blood-pressure criterion; the count is the number of criteria met; and
  the syndrome is present exactly when at least three criteria are met.
\<close>

theorem metabolicSyndrome_five_criteria:
  "length (criteria (metabolicSyndrome s)) = 5
   \<and> map name (criteria (metabolicSyndrome s)) =
       [''Waist circumference'', ''Triglycerides'', ''HDL'', ''Blood pressure'',
        ''Fasting glucose'']
   \<and> metCount (metabolicSyndrome s) = length (filter met (criteria (metabolicSyndrome s)))
   \<and> (present (metabolicSyndrome s) \<longleftrightarrow> 3 \<le> metCount (metabolicSyndrome s))
   \<and> (sex s = SexUnset \<or> nWaist s = None \<longrightarrow> \<not> met (criteria (metabolicSyndrome s) ! 0))
   \<and> (nTG s = None \<longrightarrow> \<not> met (criteria (metabolicSyndrome s) ! 1))
   \<and> (sex s = SexUnset \<or> nHDL s = None \<longrightarrow> \<not> met (criteria (metabolicSyndrome s) ! 2))
   \<and> (onBPtx s \<longrightarrow> met (criteria (metabolicSyndrome s) ! 3))
   \<and> (\<not> onBPtx s \<and> (nSBP s = None \<or> nDBP s = None)
        \<longrightarrow> \<not> met (criteria (metabolicSyndrome s) ! 3))
   \<and> (ng0 s = None \<longrightarrow> \<not> met (criteria (metabolicSyndrome s) ! 4))
   \<and> (sex s = Male \<and> nWaist s = Some w
        \<longrightarrow> met (criteria (metabolicSyndrome s) ! 0) = (w > Fin 102))
   \<and> (sex s = Female \<and> nWaist s = Some w
        \<longrightarrow> met (criteria (metabolicSyndrome s) ! 0) = (w > Fin 88))
   \<and> (nTG s = Some t \<longrightarrow> met (criteria (metabolicSyndrome s) ! 1) = (t \<ge> Fin 150))
   \<and> (sex s = Male \<and> nHDL s = Some h
        \<longrightarrow> met (criteria (metabolicSyndrome s) ! 2) = (h < Fin 40))
   \<and> (sex s = Female \<and> nHDL s = Some h
        \<longrightarrow> met (criteria (metabolicSyndrome s) ! 2) = (h < Fin 50))
   \<and> (\<not> onBPtx s \<and> nSBP s = Some sb \<and> nDBP s = Some db
        \<longrightarrow> met (criteria (metabolicSyndrome s) ! 3) = (sb \<ge> Fin 130 \<or> db \<ge> Fin 85))
   \<and> (ng0 s = Some g \<longrightarrow> met (criteria (metabolicSyndrome s) ! 4) = (g \<ge> Fin 100))"
proof -
  have len: "length (criteria (metabolicSyndrome s)) = 5"
    by (simp add: metabolicSyndrome_def Let_def)
  have names: "map name (criteria (metabolicSyndrome s)) =
       [''Waist circumference'', ''Triglycerides'', ''HDL'', ''Blood pressure'',
        ''Fasting glucose'']"
    by (simp add: metabolicSyndrome_def Let_def split: option.splits)
  have cnt: "metCount (metabolicSyndrome s) =
       length (filter met (criteria (metabolicSyndrome s)))"
    by (simp only: metCount_criteria count_met)
  have waist: "sex s = SexUnset \<or> nWaist s = None
       \<longrightarrow> \<not> met (criteria (metabolicSyndrome s) ! 0)"
    by (simp add: metabolicSyndrome_def Let_def split: option.splits)
  have trig: "nTG s = None \<longrightarrow> \<not> met (criteria (metabolicSyndrome s) ! 1)"
    by (simp add: metabolicSyndrome_def Let_def split: option.splits)
  have hdlc: "sex s = SexUnset \<or> nHDL s = None
       \<longrightarrow> \<not> met (criteria (metabolicSyndrome s) ! 2)"
    by (simp add: metabolicSyndrome_def Let_def split: option.splits)
  have bp1: "onBPtx s \<longrightarrow> met (criteria (metabolicSyndrome s) ! 3)"
    by (simp add: metabolicSyndrome_def Let_def)
  have bp2: "\<not> onBPtx s \<and> (nSBP s = None \<or> nDBP s = None)
       \<longrightarrow> \<not> met (criteria (metabolicSyndrome s) ! 3)"
    by (auto simp add: metabolicSyndrome_def Let_def split: option.splits)
  have fpg: "ng0 s = None \<longrightarrow> \<not> met (criteria (metabolicSyndrome s) ! 4)"
    by (simp add: metabolicSyndrome_def Let_def)
  have waist_m: "sex s = Male \<and> nWaist s = Some w
       \<longrightarrow> met (criteria (metabolicSyndrome s) ! 0) = (w > Fin 102)"
    by (simp add: metabolicSyndrome_def Let_def)
  have waist_f: "sex s = Female \<and> nWaist s = Some w
       \<longrightarrow> met (criteria (metabolicSyndrome s) ! 0) = (w > Fin 88)"
    by (simp add: metabolicSyndrome_def Let_def)
  have trig_v: "nTG s = Some t
       \<longrightarrow> met (criteria (metabolicSyndrome s) ! 1) = (t \<ge> Fin 150)"
    by (simp add: metabolicSyndrome_def Let_def)
  have hdl_m: "sex s = Male \<and> nHDL s = Some h
       \<longrightarrow> met (criteria (metabolicSyndrome s) ! 2) = (h < Fin 40)"
    by (simp add: metabolicSyndrome_def Let_def)
  have hdl_f: "sex s = Female \<and> nHDL s = Some h
       \<longrightarrow> met (criteria (metabolicSyndrome s) ! 2) = (h < Fin 50)"
    by (simp add: metabolicSyndrome_def Let_def)
  have bp_v: "\<not> onBPtx s \<and> nSBP s = Some sb \<and> nDBP s = Some db
       \<longrightarrow> met (criteria (metabolicSyndrome s) ! 3) = (sb \<ge> Fin 130 \<or> db \<ge> Fin 85)"
    by (simp add: metabolicSyndrome_def Let_def)
  have fpg_v: "ng0 s = Some g
       \<longrightarrow> met (criteria (metabolicSyndrome s) ! 4) = (g \<ge> Fin 100)"
    by (simp add: metabolicSyndrome_def Let_def)
  from len names cnt present_metCount waist trig hdlc bp1 bp2 fpg
  have absent: "length (criteria (metabolicSyndrome s)) = 5
   \<and> map name (criteria (metabolicSyndrome s)) =
       [''Waist circumference'', ''Triglycerides'', ''HDL'', ''Blood pressure'',
        ''Fasting glucose'']
   \<and> metCount (metabolicSyndrome s) = length (filter met (criteria (metabolicSyndrome s)))
   \<and> (present (metabolicSyndrome s) \<longleftrightarrow> 3 \<le> metCount (metabolicSyndrome s))
   \<and> (sex s = SexUnset \<or> nWaist s = None \<longrightarrow> \<not> met (criteria (metabolicSyndrome s) ! 0))
   \<and> (nTG s = None \<longrightarrow> \<not> met (criteria (metabolicSyndrome s) ! 1))
   \<and> (sex s = SexUnset \<or> nHDL s = None \<longrightarrow> \<not> met (criteria (metabolicSyndrome s) ! 2))
   \<and> (onBPtx s \<longrightarrow> met (criteria (metabolicSyndrome s) ! 3))
   \<and> (\<not> onBPtx s \<and> (nSBP s = None \<or> nDBP s = None)
        \<longrightarrow> \<not> met (criteria (metabolicSyndrome s) ! 3))
   \<and> (ng0 s = None \<longrightarrow> \<not> met (criteria (metabolicSyndrome s) ! 4))"
    by blast
  from waist_m waist_f trig_v hdl_m hdl_f bp_v fpg_v
  have cut: "(sex s = Male \<and> nWaist s = Some w
        \<longrightarrow> met (criteria (metabolicSyndrome s) ! 0) = (w > Fin 102))
   \<and> (sex s = Female \<and> nWaist s = Some w
        \<longrightarrow> met (criteria (metabolicSyndrome s) ! 0) = (w > Fin 88))
   \<and> (nTG s = Some t \<longrightarrow> met (criteria (metabolicSyndrome s) ! 1) = (t \<ge> Fin 150))
   \<and> (sex s = Male \<and> nHDL s = Some h
        \<longrightarrow> met (criteria (metabolicSyndrome s) ! 2) = (h < Fin 40))
   \<and> (sex s = Female \<and> nHDL s = Some h
        \<longrightarrow> met (criteria (metabolicSyndrome s) ! 2) = (h < Fin 50))
   \<and> (\<not> onBPtx s \<and> nSBP s = Some sb \<and> nDBP s = Some db
        \<longrightarrow> met (criteria (metabolicSyndrome s) ! 3) = (sb \<ge> Fin 130 \<or> db \<ge> Fin 85))
   \<and> (ng0 s = Some g \<longrightarrow> met (criteria (metabolicSyndrome s) ! 4) = (g \<ge> Fin 100))"
    by (intro conjI)
  from absent cut show ?thesis
    by blast
qed

text \<open>
  Three criteria met, by treatment alone for blood pressure, with HDL and fasting glucose
  absent: present. Two met, with a systolic value of 150 but no diastolic one: not present.
  A man with every value present and normal: none met, not present. A woman with every
  value just past its cut-off: five met, present. A man with waist 100 and HDL 45, past the
  cut-offs of a woman only, and the other values just short of theirs: none met.
\<close>

theorem metabolicSyndrome_five_criteria_witness:
  "onBPtx three_met \<and> nHDL three_met = None \<and> ng0 three_met = None
   \<and> map met (criteria (metabolicSyndrome three_met)) = [True, True, False, True, False]
   \<and> metCount (metabolicSyndrome three_met) = 3 \<and> present (metabolicSyndrome three_met)
   \<and> \<not> onBPtx two_met \<and> nDBP two_met = None
   \<and> map met (criteria (metabolicSyndrome two_met)) = [True, True, False, False, False]
   \<and> metCount (metabolicSyndrome two_met) = 2 \<and> \<not> present (metabolicSyndrome two_met)
   \<and> sex healthy_man = Male \<and> nWaist healthy_man = Some (Fin 90)
   \<and> nTG healthy_man = Some (Fin 100) \<and> nHDL healthy_man = Some (Fin 60)
   \<and> \<not> onBPtx healthy_man \<and> nSBP healthy_man = Some (Fin 120)
   \<and> nDBP healthy_man = Some (Fin 80) \<and> ng0 healthy_man = Some (Fin 90)
   \<and> map met (criteria (metabolicSyndrome healthy_man))
       = [False, False, False, False, False]
   \<and> metCount (metabolicSyndrome healthy_man) = 0
   \<and> \<not> present (metabolicSyndrome healthy_man)
   \<and> sex all_met_woman = Female \<and> nWaist all_met_woman = Some (Fin 89)
   \<and> nTG all_met_woman = Some (Fin 150) \<and> nHDL all_met_woman = Some (Fin 49)
   \<and> \<not> onBPtx all_met_woman \<and> nSBP all_met_woman = Some (Fin 120)
   \<and> nDBP all_met_woman = Some (Fin 85) \<and> ng0 all_met_woman = Some (Fin 100)
   \<and> map met (criteria (metabolicSyndrome all_met_woman)) = [True, True, True, True, True]
   \<and> metCount (metabolicSyndrome all_met_woman) = 5
   \<and> present (metabolicSyndrome all_met_woman)
   \<and> map met (criteria (metabolicSyndrome borderline_man))
       = [False, False, False, False, False]
   \<and> \<not> present (metabolicSyndrome borderline_man)"
  using metabolicSyndrome_five_criteria[of three_met]
    metabolicSyndrome_five_criteria[of two_met]
    metabolicSyndrome_five_criteria
      [of healthy_man "Fin 90" "Fin 100" "Fin 60" "Fin 120" "Fin 80" "Fin 90"]
    metabolicSyndrome_five_criteria
      [of all_met_woman "Fin 89" "Fin 150" "Fin 49" "Fin 120" "Fin 85" "Fin 100"]
    metabolicSyndrome_five_criteria
      [of borderline_man "Fin 100" "Fin 149" "Fin 45" "Fin 129" "Fin 84" "Fin 99"]
  by (simp add: three_met_def two_met_def healthy_man_def all_met_woman_def
        borderline_man_def noInputs_def metabolicSyndrome_def Let_def)

section \<open>Properties of the indices\<close>

text \<open>Each field of the result of \<open>indices\<close>, as the body computes it.\<close>

lemma gMean_indices: "gMean (indices s) = mean [ng0 s, ng30 s, ng60 s, ng90 s, ng120 s]"
  by (simp only: indices_def Let_def indices_t.select_convs)

lemma iMean_indices: "iMean (indices s) = mean [ni0 s, ni30 s, ni60 s, ni90 s, ni120 s]"
  by (simp only: indices_def Let_def indices_t.select_convs)

lemma homaIR_indices:
  "homaIR (indices s) =
     (case (ng0 s, ni0 s) of
        (Some g, Some i) \<Rightarrow> safeDiv (Some (g * i)) (Some (Fin 405))
      | _ \<Rightarrow> None)"
  by (simp only: indices_def Let_def indices_t.select_convs)

lemma matsuda_indices:
  "matsuda (indices s) =
     (case (ng0 s, ni0 s, gMean (indices s), iMean (indices s)) of
        (Some g, Some i, Some gm, Some im) \<Rightarrow>
          let denom = js_sqrt ((g * i) * (gm * im))
          in if \<not> isFinite denom \<or> denom = Fin 0 then None
             else Some (Fin 10000 / denom)
      | _ \<Rightarrow> None)"
  by (simp only: indices_def Let_def indices_t.select_convs)

lemma igi_indices:
  "igi (indices s) =
     (case (ni30 s, ni0 s, ng30 s, ng0 s) of
        (Some j30, Some j0, Some h30, Some h0) \<Rightarrow>
          let denom = h30 - h0
          in if denom = Fin 0 then None else Some ((j30 - j0) / denom)
      | _ \<Rightarrow> None)"
  by (simp only: indices_def Let_def indices_t.select_convs)

lemma stumvoll1_indices:
  "stumvoll1 (indices s) =
     (case (map_option (\<lambda>x. x * Fin 6) (ni30 s), map_option (\<lambda>x. x / Fin 18) (ng30 s),
            map_option (\<lambda>x. x * Fin 6) (ni0 s)) of
        (Some p30, Some m30, Some p0) \<Rightarrow>
          Some (Fin 1283 + Fin 1.829 * p30 - Fin 138.7 * m30 + Fin 3.772 * p0)
      | _ \<Rightarrow> None)"
  by (simp only: indices_def Let_def indices_t.select_convs)

lemma stumvoll2_indices:
  "stumvoll2 (indices s) =
     (case (map_option (\<lambda>x. x * Fin 6) (ni30 s), map_option (\<lambda>x. x / Fin 18) (ng30 s),
            map_option (\<lambda>x. x * Fin 6) (ni0 s)) of
        (Some p30, Some m30, Some p0) \<Rightarrow>
          Some (Fin 287 + Fin 0.4164 * p30 - Fin 26.07 * m30 + Fin 0.9226 * p0)
      | _ \<Rightarrow> None)"
  by (simp only: indices_def Let_def indices_t.select_convs)

lemma di_indices:
  "di (indices s) =
     (case (matsuda (indices s), igi (indices s)) of
        (Some m, Some x) \<Rightarrow> Some (m * x)
      | _ \<Rightarrow> None)"
  by (simp only: indices_def Let_def indices_t.select_convs)

lemma homaBeta_indices:
  "homaBeta (indices s) =
     (case (ni0 s, ng0 s) of
        (Some j0, Some h0) \<Rightarrow>
          let denom = h0 - Fin 63
          in if denom = Fin 0 then None else Some ((j0 * Fin 360) / denom)
      | _ \<Rightarrow> None)"
  by (simp only: indices_def Let_def indices_t.select_convs)

lemma pgAucWeighted_indices:
  "pgAucWeighted (indices s) =
     (case (ng0 s, ng30 s, ng60 s, ng120 s) of
        (Some h0, Some h30, Some h60, Some h120) \<Rightarrow>
          Some ((h0 + Fin 2 * h30 + Fin 3 * h60 + Fin 2 * h120) / Fin 4)
      | _ \<Rightarrow> None)"
  by (simp only: indices_def Let_def indices_t.select_convs)

text \<open>
  Claim C7: the weighted glucose area under the curve is \<open>(G0 + 2 G30 + 3 G60 + 2 G120) / 4\<close>
  when the four values are present and absent otherwise, and two inputs that agree on
  these four values have the same result, whatever their 90-minute values.
\<close>

theorem pgAucWeighted_formula:
  "(ng0 s = Some (Fin a) \<and> ng30 s = Some (Fin b) \<and> ng60 s = Some (Fin c)
      \<and> ng120 s = Some (Fin d)
      \<longrightarrow> pgAucWeighted (indices s) = Some (Fin ((a + 2 * b + 3 * c + 2 * d) / 4)))
   \<and> (ng0 s = None \<or> ng30 s = None \<or> ng60 s = None \<or> ng120 s = None
      \<longrightarrow> pgAucWeighted (indices s) = None)
   \<and> (ng0 s = ng0 t \<and> ng30 s = ng30 t \<and> ng60 s = ng60 t \<and> ng120 s = ng120 t
      \<longrightarrow> pgAucWeighted (indices s) = pgAucWeighted (indices t))"
  by (auto simp add: pgAucWeighted_indices split: option.splits)

text \<open>
  The curve 90, 150, 180, 999, 130 gives 297.5, and so does the curve without the
  90-minute value or with another one.
\<close>

theorem pgAucWeighted_formula_witness:
  "pgAucWeighted (indices curve) = Some (Fin 297.5)
   \<and> pgAucWeighted (indices (curve \<lparr> ng90 := None \<rparr>)) = Some (Fin 297.5)
   \<and> pgAucWeighted (indices (curve \<lparr> ng90 := Some (Fin 100) \<rparr>))
       = pgAucWeighted (indices curve)
   \<and> pgAucWeighted (indices (curve \<lparr> ng60 := None \<rparr>)) = None"
  using pgAucWeighted_formula[of curve 90 150 180 130 "curve \<lparr> ng90 := None \<rparr>"]
    pgAucWeighted_formula[of "curve \<lparr> ng90 := Some (Fin 100) \<rparr>" 90 150 180 130 curve]
    pgAucWeighted_formula[of "curve \<lparr> ng60 := None \<rparr>"]
  by (simp add: curve_def noInputs_def pgAucWeighted_indices)

text \<open>Sums of finite numbers, and the mean of the finite values kept, are finite.\<close>

lemma foldl_add_finite:
  "list_all isFinite v \<Longrightarrow> \<exists>t. foldl (\<lambda>a b. a + b) (Fin r) v = Fin t"
proof (induction v arbitrary: r)
  case Nil
  then show ?case by simp
next
  case (Cons x xs)
  from Cons.prems have fx: "isFinite x" and xs: "list_all isFinite xs"
    by simp_all
  from fx obtain y where x: "x = Fin y"
    by (cases x) simp_all
  from Cons.IH[OF xs, of "r + y"] x show ?case by simp
qed

lemma kept_finite:
  "list_all isFinite
     (List.map_filter
        (\<lambda>x. case x of None \<Rightarrow> None | Some n \<Rightarrow> if isFinite n then Some n else None) vals)"
  by (induction vals) (auto simp add: List.map_filter_simps split: option.splits)

lemma mean_finite: "finite_opt (mean vals)"
proof -
  let ?v = "List.map_filter
        (\<lambda>x. case x of None \<Rightarrow> None | Some n \<Rightarrow> if isFinite n then Some n else None) vals"
  from foldl_add_finite[OF kept_finite, of 0 vals]
  obtain t where t: "foldl (\<lambda>a b. a + b) (Fin 0) ?v = Fin t"
    by blast
  show ?thesis
    by (simp add: mean_def Let_def t)
qed

lemma homaIRCutoff_finite: "isFinite (homaIRCutoff (indices s))"
  by (simp add: indices_def Let_def)

lemma homaIR_finite:
  "finite_opt (ng0 s) \<Longrightarrow> finite_opt (ni0 s) \<Longrightarrow> finite_opt (homaIR (indices s))"
  by (auto elim!: finite_optE simp add: homaIR_indices safeDiv_def)

lemma matsuda_finite:
  assumes "finite_opt (ng0 s)" and "finite_opt (ni0 s)"
  shows "finite_opt (matsuda (indices s))"
proof -
  have m: "finite_opt (gMean (indices s))" "finite_opt (iMean (indices s))"
    by (simp_all add: gMean_indices iMean_indices mean_finite)
  from assms m show ?thesis
    unfolding matsuda_indices
    by (auto elim!: finite_optE simp add: Let_def)
qed

lemma igi_finite:
  "finite_opt (ni30 s) \<Longrightarrow> finite_opt (ni0 s) \<Longrightarrow> finite_opt (ng30 s) \<Longrightarrow> finite_opt (ng0 s)
   \<Longrightarrow> finite_opt (igi (indices s))"
  by (auto elim!: finite_optE simp add: igi_indices Let_def)

lemma stumvoll1_finite:
  "finite_opt (ni30 s) \<Longrightarrow> finite_opt (ni0 s) \<Longrightarrow> finite_opt (ng30 s)
   \<Longrightarrow> finite_opt (stumvoll1 (indices s))"
  by (auto elim!: finite_optE simp add: stumvoll1_indices)

lemma stumvoll2_finite:
  "finite_opt (ni30 s) \<Longrightarrow> finite_opt (ni0 s) \<Longrightarrow> finite_opt (ng30 s)
   \<Longrightarrow> finite_opt (stumvoll2 (indices s))"
  by (auto elim!: finite_optE simp add: stumvoll2_indices)

lemma di_finite:
  "finite_opt (matsuda (indices s)) \<Longrightarrow> finite_opt (igi (indices s))
   \<Longrightarrow> finite_opt (di (indices s))"
  unfolding di_indices by (auto elim!: finite_optE)

lemma homaBeta_finite:
  "finite_opt (ni0 s) \<Longrightarrow> finite_opt (ng0 s) \<Longrightarrow> finite_opt (homaBeta (indices s))"
  by (auto elim!: finite_optE simp add: homaBeta_indices Let_def)

lemma pgAucWeighted_finite:
  "finite_opt (ng0 s) \<Longrightarrow> finite_opt (ng30 s) \<Longrightarrow> finite_opt (ng60 s) \<Longrightarrow> finite_opt (ng120 s)
   \<Longrightarrow> finite_opt (pgAucWeighted (indices s))"
  by (auto elim!: finite_optE simp add: pgAucWeighted_indices)

lemma igi_zero_denominator:
  "finite_opt (ng0 s) \<Longrightarrow> ng30 s = ng0 s \<Longrightarrow> igi (indices s) = None"
  by (auto elim!: finite_optE simp add: igi_indices Let_def split: option.splits)

lemma indices_finite:
  assumes "finite_inputs s"
  shows "list_all finite_opt
           [gMean (indices s), iMean (indices s), homaIR (indices s), matsuda (indices s),
            igi (indices s), stumvoll1 (indices s), stumvoll2 (indices s), di (indices s),
            homaBeta (indices s), pgAucWeighted (indices s)]"
proof -
  from assms have f: "finite_opt (ng0 s)" "finite_opt (ng30 s)" "finite_opt (ng60 s)"
    "finite_opt (ng120 s)" "finite_opt (ni0 s)" "finite_opt (ni30 s)"
    by (simp_all add: finite_inputs_def)
  have m: "finite_opt (matsuda (indices s))" using f by (simp add: matsuda_finite)
  have i: "finite_opt (igi (indices s))" using f by (simp add: igi_finite)
  show ?thesis
    using f m i
    by (simp add: gMean_indices iMean_indices mean_finite homaIR_finite stumvoll1_finite
          stumvoll2_finite di_finite homaBeta_finite pgAucWeighted_finite)
qed

text \<open>
  Claim C10: for every content of the form, the insulinogenic index is absent when the
  glucose values at 30 and 0 minutes are equal or an operand is absent, HOMA-beta is absent
  when fasting glucose is 63 or an operand is absent, and every index is absent or a
  finite number: no infinity and no NaN comes out of a division.
\<close>

theorem indices_guarded:
  "list_all finite_opt
     [gMean (indices (normalize f)), iMean (indices (normalize f)),
      homaIR (indices (normalize f)), matsuda (indices (normalize f)),
      igi (indices (normalize f)), stumvoll1 (indices (normalize f)),
      stumvoll2 (indices (normalize f)), di (indices (normalize f)),
      homaBeta (indices (normalize f)), pgAucWeighted (indices (normalize f))]
   \<and> isFinite (homaIRCutoff (indices (normalize f)))
   \<and> (ng30 (normalize f) = ng0 (normalize f) \<longrightarrow> igi (indices (normalize f)) = None)
   \<and> (ni30 (normalize f) = None \<or> ni0 (normalize f) = None \<or> ng30 (normalize f) = None
        \<or> ng0 (normalize f) = None \<longrightarrow> igi (indices (normalize f)) = None)
   \<and> (ng0 (normalize f) = Some (Fin 63) \<longrightarrow> homaBeta (indices (normalize f)) = None)
   \<and> (ni0 (normalize f) = None \<or> ng0 (normalize f) = None
        \<longrightarrow> homaBeta (indices (normalize f)) = None)"
proof -
  have fin: "finite_inputs (normalize f)" by (rule normalize_finite)
  then have g0: "finite_opt (ng0 (normalize f))" by (simp add: finite_inputs_def)
  have a: "ng30 (normalize f) = ng0 (normalize f) \<longrightarrow> igi (indices (normalize f)) = None"
    using g0 by (simp add: igi_zero_denominator)
  have b: "ni30 (normalize f) = None \<or> ni0 (normalize f) = None \<or> ng30 (normalize f) = None
        \<or> ng0 (normalize f) = None \<longrightarrow> igi (indices (normalize f)) = None"
    by (auto simp add: igi_indices split: option.splits)
  have c: "ng0 (normalize f) = Some (Fin 63) \<longrightarrow> homaBeta (indices (normalize f)) = None"
    by (simp add: homaBeta_indices split: option.splits)
  have d: "ni0 (normalize f) = None \<or> ng0 (normalize f) = None
        \<longrightarrow> homaBeta (indices (normalize f)) = None"
    by (auto simp add: homaBeta_indices split: option.splits)
  from indices_finite[OF fin] homaIRCutoff_finite a b c d show ?thesis
    by blast
qed

text \<open>
  Glucose 95 at 0 and at 30 minutes: no insulinogenic index. Fasting glucose 63: no
  HOMA-beta.
\<close>

theorem indices_guarded_witness:
  "ng30 (normalize flat_form) = ng0 (normalize flat_form)
   \<and> ni30 (normalize flat_form) = Some (Fin 60) \<and> ni0 (normalize flat_form) = Some (Fin 10)
   \<and> igi (indices (normalize flat_form)) = None
   \<and> ng0 (normalize sixty_three_form) = Some (Fin 63)
   \<and> homaBeta (indices (normalize sixty_three_form)) = None"
proof -
  have a: "ng0 (normalize flat_form) = Some (Fin 95)"
    "ng30 (normalize flat_form) = Some (Fin 95)"
    "ni0 (normalize flat_form) = Some (Fin 10)"
    "ni30 (normalize flat_form) = Some (Fin 60)"
    by (simp_all add: normalize_def flat_form_def initialForm_def clampNum_def Let_def
          Math_max_def Math_min_def parse_defs)
  have b: "ng0 (normalize sixty_three_form) = Some (Fin 63)"
    by (simp add: normalize_def sixty_three_form_def initialForm_def clampNum_def Let_def
          Math_max_def Math_min_def parse_defs)
  from a b indices_guarded[of flat_form] indices_guarded[of sixty_three_form]
  show ?thesis
    by simp
qed

section \<open>Properties of Step 3\<close>

lemma highRisk_ifg_igt: "isIFG (ng0 s) \<Longrightarrow> isIGT (ng120 s) \<Longrightarrow> highRisk (risk s)"
  by (simp add: risk_def Let_def)

lemmas example_defs =
  noInputs_def ifg_igt_def ifg_only_def all_rules_def high_risk_no_age_def
  high_risk_age_def lighter_def

lemmas risk_eval =
  risk_def Let_def isIFG_def isIGT_def igi_indices stumvoll1_indices
  metabolicSyndrome_def truthy_text_def

text \<open>
  Claim C1: the high-risk result of Step 3 is true if and only if a rule of severity
  danger matched, that is, if and only if some flag produced has severity danger; flags of
  severity warn alone do not make it true.
\<close>

theorem highRisk_iff_danger:
  "(highRisk (risk s) \<longleftrightarrow> (\<exists>f \<in> set (flags (risk s)). severity f = Danger))
   \<and> (highRisk (risk s) \<longleftrightarrow>
        (IGT (risk s) \<and> oneHourHigh (risk s) \<and> metS (risk s))
      \<or> (IFG (risk s) \<and> IGT (risk s))
      \<or> (IFG (risk s) \<and> oneHourHigh (risk s) \<and> metS (risk s))
      \<or> ((IGT (risk s) \<or> IFG (risk s)) \<and> oneHourHigh (risk s) \<and> a1cHigh (risk s))
      \<or> ((IGT (risk s) \<or> IFG (risk s)) \<and> oneHourHigh (risk s)
           \<and> (igiLow (risk s) \<or> firstPhaseLow (risk s))))
   \<and> ((\<forall>f \<in> set (flags (risk s)). severity f = Warn) \<longrightarrow> \<not> highRisk (risk s))"
proof -
  have a: "highRisk (risk s) \<longleftrightarrow> list_ex (\<lambda>f. severity f = Danger) (flags (risk s))"
    by (simp add: risk_def Let_def)
  have b: "highRisk (risk s) \<longleftrightarrow>
        (IGT (risk s) \<and> oneHourHigh (risk s) \<and> metS (risk s))
      \<or> (IFG (risk s) \<and> IGT (risk s))
      \<or> (IFG (risk s) \<and> oneHourHigh (risk s) \<and> metS (risk s))
      \<or> ((IGT (risk s) \<or> IFG (risk s)) \<and> oneHourHigh (risk s) \<and> a1cHigh (risk s))
      \<or> ((IGT (risk s) \<or> IFG (risk s)) \<and> oneHourHigh (risk s)
           \<and> (igiLow (risk s) \<or> firstPhaseLow (risk s)))"
    by (simp add: risk_def Let_def)
  from a have c: "highRisk (risk s) \<longleftrightarrow> (\<exists>f \<in> set (flags (risk s)). severity f = Danger)"
    by (simp add: list_ex_iff)
  from c have d: "(\<forall>f \<in> set (flags (risk s)). severity f = Warn) \<longrightarrow> \<not> highRisk (risk s)"
    by auto
  from b c d show ?thesis by blast
qed

text \<open>
  IFG with IGT: one danger flag and two warn flags, high risk. IFG alone: one warn flag,
  not high risk.
\<close>

theorem highRisk_iff_danger_witness:
  "map severity (flags (risk ifg_igt)) = [Danger, Warn, Warn] \<and> highRisk (risk ifg_igt)
   \<and> map severity (flags (risk ifg_only)) = [Warn] \<and> \<not> highRisk (risk ifg_only)"
  using highRisk_iff_danger[of ifg_igt] highRisk_iff_danger[of ifg_only]
  by (simp add: risk_eval example_defs)



section \<open>Properties of Step 4\<close>

text \<open>
  Claim C8 as stated (the weight-loss target is reported also when age is unknown,
  provided weight is present) fails: at high risk, with weight 100 kg and no age, there is
  no target.
\<close>

theorem weightLoss_without_age_counterexample:
  "highRisk (risk high_risk_no_age) \<and> nWeight high_risk_no_age = Some (Fin 100)
   \<and> nAge high_risk_no_age = None \<and> weightLoss (step4 high_risk_no_age) = None"
  by (simp add: step4_def risk_def Let_def isIFG_def isIGT_def example_defs)

text \<open>
  Claim C8, amended: when Step 3 is high risk and the age is known, the weight-loss
  target is the pair of the weight times 0.05 and the weight times 0.10 whenever the weight
  is known, whatever the age; it is absent when the weight is absent, when the age is
  unknown, or when Step 3 is not high risk.
\<close>

theorem weightLoss_target:
  "(highRisk (risk s) \<and> nAge s = Some a \<and> nWeight s = Some w
      \<longrightarrow> weightLoss (step4 s) = Some \<lparr> lowKg = w * Fin 0.05, highKg = w * Fin 0.10 \<rparr>)
   \<and> (\<not> highRisk (risk s) \<or> nAge s = None \<or> nWeight s = None
      \<longrightarrow> weightLoss (step4 s) = None)"
  by (auto simp add: step4_def Let_def split: option.splits)

text \<open>
  At high risk with weight 100 kg the target is 5 to 10 kg at age 30, 45 and 60; with IFG
  alone, not high risk, there is none.
\<close>

theorem weightLoss_target_witness:
  "weightLoss (step4 (high_risk_age 30)) = Some \<lparr> lowKg = Fin 5, highKg = Fin 10 \<rparr>
   \<and> weightLoss (step4 (high_risk_age 45)) = Some \<lparr> lowKg = Fin 5, highKg = Fin 10 \<rparr>
   \<and> weightLoss (step4 (high_risk_age 60)) = Some \<lparr> lowKg = Fin 5, highKg = Fin 10 \<rparr>
   \<and> \<not> highRisk (risk ifg_only) \<and> weightLoss (step4 ifg_only) = None"
proof -
  have h: "highRisk (risk (high_risk_age a))" for a
    by (rule highRisk_ifg_igt) (simp_all add: isIFG_def isIGT_def example_defs)
  have n: "\<not> highRisk (risk ifg_only)"
    by (simp add: risk_def Let_def isIFG_def isIGT_def example_defs)
  show ?thesis
    using weightLoss_target[of "high_risk_age 30" "Fin 30" "Fin 100"]
      weightLoss_target[of "high_risk_age 45" "Fin 45" "Fin 100"]
      weightLoss_target[of "high_risk_age 60" "Fin 60" "Fin 100"]
      weightLoss_target[of ifg_only] h n
    by (simp add: example_defs)
qed

section \<open>Properties of the baseline comparison\<close>

lemma comparison_Some:
  "comparison (Some b) s =
     Some \<lparr> wlPct =
              (case (baseline_t.weightKg b, nWeight s) of
                 (Some bw, Some nw) \<Rightarrow>
                   if bw > Fin 0 then Some (((bw - nw) / bw) * Fin 100) else None
               | _ \<Rightarrow> None),
            reversedHighRisk = (baseline_t.highRisk b \<and> \<not> highRisk (risk s)),
            newHighRisk = (\<not> baseline_t.highRisk b \<and> highRisk (risk s)),
            added = filter (\<lambda>x. x \<notin> set (Set_of (baseline_t.flags b)))
                      (Set_of (map flagLabel (flags (risk s)))),
            removed = filter (\<lambda>x. x \<notin> set (Set_of (map flagLabel (flags (risk s)))))
                        (Set_of (baseline_t.flags b)) \<rparr>"
  by (simp only: comparison_def Let_def option.case)

text \<open>The weight of a saved baseline, when present, is positive: it is at least 20.\<close>

lemma saved_weight_positive:
  assumes "baseline_t.weightKg (saveBaseline ts (normalize f)) = Some w"
  shows "w > Fin 0"
proof -
  from assms have "clampNum (Txt (form.weightKg f)) (Fin 20) (Fin 300) = Some w"
    by (simp add: saveBaseline_def normalize_def)
  from clampNum_range[OF this] show ?thesis by auto
qed

text \<open>
  Claim C9: when a baseline exists, the comparison is reported; the weight change in
  percent is \<open>(baseline - current) / baseline * 100\<close>, absent when either weight is absent
  or the baseline weight is zero; reversed high risk is high risk at baseline and not now,
  new high risk is the converse. (The formula applies when the baseline weight is
  positive, which the weight of every saved baseline is.)
\<close>

theorem comparison_weight_change:
  "(\<exists>c. comparison (Some b) s = Some c)
   \<and> (baseline_t.weightKg b = Some bw \<and> nWeight s = Some nw \<and> bw > Fin 0
        \<longrightarrow> wlPct (the (comparison (Some b) s)) = Some (((bw - nw) / bw) * Fin 100))
   \<and> (baseline_t.weightKg b = Some (Fin x) \<and> nWeight s = Some (Fin y) \<and> x > 0
        \<longrightarrow> wlPct (the (comparison (Some b) s)) = Some (Fin ((x - y) / x * 100)))
   \<and> (baseline_t.weightKg b = None \<or> nWeight s = None
        \<or> baseline_t.weightKg b = Some (Fin 0)
        \<longrightarrow> wlPct (the (comparison (Some b) s)) = None)
   \<and> (reversedHighRisk (the (comparison (Some b) s))
        \<longleftrightarrow> baseline_t.highRisk b \<and> \<not> highRisk (risk s))
   \<and> (newHighRisk (the (comparison (Some b) s))
        \<longleftrightarrow> \<not> baseline_t.highRisk b \<and> highRisk (risk s))
   \<and> (baseline_t.weightKg (saveBaseline ts (normalize f)) = Some w \<longrightarrow> w > Fin 0)"
proof -
  have ex: "\<exists>c. comparison (Some b) s = Some c"
    by (simp add: comparison_Some)
  have gen: "baseline_t.weightKg b = Some bw \<and> nWeight s = Some nw \<and> bw > Fin 0
        \<longrightarrow> wlPct (the (comparison (Some b) s)) = Some (((bw - nw) / bw) * Fin 100)"
    by (simp add: comparison_Some)
  have fin: "baseline_t.weightKg b = Some (Fin x) \<and> nWeight s = Some (Fin y) \<and> x > 0
        \<longrightarrow> wlPct (the (comparison (Some b) s)) = Some (Fin ((x - y) / x * 100))"
    by (simp add: comparison_Some)
  have abs: "baseline_t.weightKg b = None \<or> nWeight s = None
        \<or> baseline_t.weightKg b = Some (Fin 0)
        \<longrightarrow> wlPct (the (comparison (Some b) s)) = None"
    by (auto simp add: comparison_Some split: option.splits)
  have rev: "reversedHighRisk (the (comparison (Some b) s))
        \<longleftrightarrow> baseline_t.highRisk b \<and> \<not> highRisk (risk s)"
    by (simp add: comparison_Some)
  have new: "newHighRisk (the (comparison (Some b) s))
        \<longleftrightarrow> \<not> baseline_t.highRisk b \<and> highRisk (risk s)"
    by (simp add: comparison_Some)
  have pos: "baseline_t.weightKg (saveBaseline ts (normalize f)) = Some w \<longrightarrow> w > Fin 0"
    using saved_weight_positive by blast
  from ex gen fin abs rev new pos show ?thesis
    by blast
qed

text \<open>
  A baseline at high risk with weight 100 kg, compared with a current state of weight 92 kg
  that is not at high risk: 8 percent lost, high risk reversed, no new high risk.
\<close>

theorem comparison_weight_change_witness:
  "baseline_t.weightKg (saveBaseline ''t0'' high_risk_no_age) = Some (Fin 100)
   \<and> nWeight lighter = Some (Fin 92)
   \<and> wlPct (the (comparison (Some (saveBaseline ''t0'' high_risk_no_age)) lighter))
       = Some (Fin 8)
   \<and> reversedHighRisk (the (comparison (Some (saveBaseline ''t0'' high_risk_no_age)) lighter))
   \<and> \<not> newHighRisk (the (comparison (Some (saveBaseline ''t0'' high_risk_no_age)) lighter))"
proof -
  have h: "highRisk (risk high_risk_no_age)"
    by (rule highRisk_ifg_igt) (simp_all add: isIFG_def isIGT_def example_defs)
  have n: "\<not> highRisk (risk lighter)"
    by (simp add: risk_def Let_def isIFG_def isIGT_def example_defs)
  have w: "baseline_t.weightKg (saveBaseline ''t0'' high_risk_no_age) = Some (Fin 100)"
    "baseline_t.highRisk (saveBaseline ''t0'' high_risk_no_age)
       = highRisk (risk high_risk_no_age)"
    by (simp_all add: saveBaseline_def example_defs)
  have l: "nWeight lighter = Some (Fin 92)"
    by (simp add: example_defs)
  show ?thesis
    using comparison_weight_change
            [of "saveBaseline ''t0'' high_risk_no_age" lighter "Fin 100" "Fin 92" 100 92]
      h n w l
    by simp
qed

end
